theory Spec2Isabelle
  imports Complex_Main "HOL-Library.Log_Nat"
begin

section \<open>JavaScript numbers\<close>

text \<open>
  The TypeScript type \<open>number\<close> is the IEEE 754 binary64 format. A finite value is
  \<open>Num q\<close> with \<open>q\<close> the rational it denotes; the two zeros are identified, since no
  operation of the engine tells them apart. The values of the type are \<open>NaN\<close>, the two
  infinities and \<open>Num q\<close> for the \<open>q\<close> that binary64 represents, that is those with
  \<open>round64 q = Num q\<close>.
\<close>

datatype number = NaN | PosInfinity | NegInfinity | Num rat

text \<open>Rounding to an integer, a tie going to the even neighbour.\<close>

definition round_ties_even :: "rat \<Rightarrow> int" where
  "round_ties_even x =
     (let n = \<lfloor>x\<rfloor>; d = x - of_int n
      in if d < 1 / 2 then n else if 1 / 2 < d then n + 1 else if even n then n else n + 1)"

text \<open>The exponent of the binade of a positive rational: \<open>2 ^ ilog2 q \<le> q < 2 ^ (ilog2 q + 1)\<close>.\<close>

definition ilog2 :: "rat \<Rightarrow> int" where
  "ilog2 q = (if 1 \<le> q then bitlen \<lfloor>q\<rfloor> - 1 else - bitlen (\<lceil>1 / q\<rceil> - 1))"

text \<open>
  The binary64 value of an exact result: 53 significant bits, the least exponent
  \<open>-1022\<close> (below it the spacing stays \<open>2 ^ -1074\<close>), round to nearest with ties to even,
  and an infinity when the rounded magnitude reaches \<open>2 ^ 1024\<close>.
\<close>

definition round64 :: "rat \<Rightarrow> number" where
  "round64 q =
     (if q = 0 then Num 0
      else
        let e = max (ilog2 \<bar>q\<bar>) (- 1022);
            ulp = 2 powi (e - 52);
            r = of_int (round_ties_even (q / ulp)) * ulp
        in if 2 ^ 1024 \<le> \<bar>r\<bar> then (if 0 < q then PosInfinity else NegInfinity) else Num r)"

fun js_neg :: "number \<Rightarrow> number" where
  "js_neg NaN = NaN"
| "js_neg PosInfinity = NegInfinity"
| "js_neg NegInfinity = PosInfinity"
| "js_neg (Num a) = Num (- a)"

text \<open>The operator \<open>+\<close> on numbers.\<close>

fun js_add :: "number \<Rightarrow> number \<Rightarrow> number" where
  "js_add NaN y = NaN"
| "js_add x NaN = NaN"
| "js_add PosInfinity NegInfinity = NaN"
| "js_add NegInfinity PosInfinity = NaN"
| "js_add PosInfinity y = PosInfinity"
| "js_add NegInfinity y = NegInfinity"
| "js_add x PosInfinity = PosInfinity"
| "js_add x NegInfinity = NegInfinity"
| "js_add (Num a) (Num b) = round64 (a + b)"

text \<open>The operator \<open>-\<close>: \<open>x - y\<close> is \<open>x + (-y)\<close>.\<close>

definition js_sub :: "number \<Rightarrow> number \<Rightarrow> number" where
  "js_sub x y = js_add x (js_neg y)"

text \<open>The operators \<open><\<close>, \<open>>\<close>, \<open><=\<close> and \<open>===\<close>; every comparison with \<open>NaN\<close> is false.\<close>

fun js_lt :: "number \<Rightarrow> number \<Rightarrow> bool" where
  "js_lt NaN y = False"
| "js_lt x NaN = False"
| "js_lt x NegInfinity = False"
| "js_lt PosInfinity y = False"
| "js_lt NegInfinity y = True"
| "js_lt (Num a) PosInfinity = True"
| "js_lt (Num a) (Num b) = (a < b)"

definition js_gt :: "number \<Rightarrow> number \<Rightarrow> bool" where
  "js_gt x y = js_lt y x"

definition js_le :: "number \<Rightarrow> number \<Rightarrow> bool" where
  "js_le x y = (x \<noteq> NaN \<and> y \<noteq> NaN \<and> \<not> js_lt y x)"

definition js_strict_eq :: "number \<Rightarrow> number \<Rightarrow> bool" where
  "js_strict_eq x y = (x \<noteq> NaN \<and> x = y)"

definition Math_min :: "number \<Rightarrow> number \<Rightarrow> number" where
  "Math_min x y = (if x = NaN \<or> y = NaN then NaN else if js_lt y x then y else x)"


section \<open>Data model (src/types.ts)\<close>

text \<open>
  The union of string literals \<open>OrderStatus\<close> is a datatype; the interfaces are records.
  Records are extensible, as TypeScript's structural interfaces are: an order that carries
  more properties than \<open>Order\<close> declares is a value of a record extending \<open>Order\<close>, and the
  engine, which is written against \<open>Order\<close>, works on it without reading the extra
  properties.
\<close>

datatype OrderStatus = OPEN | PARTIALLY_FILLED | FILLED

record Order =
  id_ord :: string
  quantity :: number
  filledQuantity :: number
  status :: OrderStatus

record Account =
  balance :: number

text \<open>
  The field \<open>type\<close> of an event is declared as the literal \<open>"execution"\<close>, but the
  engine tests it at run time (the events are parsed from JSON), so it is a string here.
\<close>

record ExecutionEvent =
  etype :: string
  eventId :: string
  orderId :: string
  executedQuantity :: number

text \<open>
  An order that also has a side, as the orders of \<open>executeOrder\<close> and of the mock engine
  have. The interface \<open>Order\<close> of src/types.ts, which the trading engine uses, declares no
  side.
\<close>

datatype OrderSide = BUY | SELL

record SidedOrder = Order +
  side :: OrderSide

section \<open>JavaScript values and objects\<close>

text \<open>
  The object that \<open>applyExecution\<close> returns is modelled as the list of the properties of
  the object literal; reading a property that the object does not have gives
  \<open>undefined\<close>, here \<open>None\<close>.
\<close>

datatype jsval = JBool bool | JStr string | JNum number

type_synonym jsobject = "(string \<times> jsval) list"

definition get_prop :: "jsobject \<Rightarrow> string \<Rightarrow> jsval option" where
  "get_prop obj k = map_of obj k"

definition applied_of :: "jsobject \<Rightarrow> bool" where
  "applied_of obj = (get_prop obj ''applied'' = Some (JBool True))"

section \<open>The store of Set objects\<close>

text \<open>
  \<open>processedEventIds\<close> is a reference to a mutable \<open>Set<string>\<close>. The store maps the
  address of every set object to its contents; \<open>next_addr\<close> is the first address that is
  not allocated yet. The order and the account of an engine are kept by value in the
  engine's record.
\<close>

type_synonym addr = nat

record store =
  cells :: "addr \<Rightarrow> string set"
  next_addr :: addr

definition empty_store :: store where
  "empty_store = \<lparr>cells = (\<lambda>_. {}), next_addr = 0\<rparr>"

definition new_Set :: "string set \<Rightarrow> store \<Rightarrow> addr \<times> store" where
  "new_Set xs h =
     (next_addr h, h\<lparr>cells := (cells h)(next_addr h := xs), next_addr := next_addr h + 1\<rparr>)"

definition Set_has :: "addr \<Rightarrow> string \<Rightarrow> store \<Rightarrow> bool" where
  "Set_has a x h = (x \<in> cells h a)"

definition Set_add :: "addr \<Rightarrow> string \<Rightarrow> store \<Rightarrow> store" where
  "Set_add a x h = h\<lparr>cells := (cells h)(a := insert x (cells h a))\<rparr>"

definition Set_delete :: "addr \<Rightarrow> string \<Rightarrow> store \<Rightarrow> store" where
  "Set_delete a x h = h\<lparr>cells := (cells h)(a := cells h a - {x})\<rparr>"

definition Set_clear :: "addr \<Rightarrow> store \<Rightarrow> store" where
  "Set_clear a h = h\<lparr>cells := (cells h)(a := {})\<rparr>"

section \<open>The trading engine (src/engine.ts)\<close>

record 'a TradingEngine =
  processedEventIds :: addr
  order :: "'a Order_scheme"
  account :: Account

text \<open>The constructor, with the field initialiser \<open>processedEventIds = new Set()\<close>.\<close>

definition new_TradingEngine ::
  "'a Order_scheme \<Rightarrow> Account \<Rightarrow> store \<Rightarrow> 'a TradingEngine \<times> store" where
  "new_TradingEngine ord acc h =
     (case new_Set {} h of
        (a, h') \<Rightarrow> (\<lparr>processedEventIds = a, order = ord, account = acc\<rparr>, h'))"

definition applyExecution ::
  "ExecutionEvent \<Rightarrow> 'a TradingEngine \<Rightarrow> store \<Rightarrow> jsobject \<times> 'a TradingEngine \<times> store" where
  "applyExecution evt this h =
     (if etype evt \<noteq> ''execution'' then
        ([(''applied'', JBool False), (''reason'', JStr ''unsupported_event'')], this, h)
      else if Set_has (processedEventIds this) (eventId evt) h then
        ([(''applied'', JBool False), (''reason'', JStr ''duplicate_event'')], this, h)
      else if orderId evt \<noteq> id_ord (order this) then
        ([(''applied'', JBool False), (''reason'', JStr ''unknown_order'')], this, h)
      else if js_le (executedQuantity evt) (Num 0) then
        ([(''applied'', JBool False), (''reason'', JStr ''invalid_executed_quantity'')], this, h)
      else if status (order this) = FILLED then
        ([(''applied'', JBool False), (''reason'', JStr ''already_filled'')], this, h)
      else
        let remaining = js_sub (quantity (order this)) (filledQuantity (order this));
            effectiveQty = Math_min (executedQuantity evt) remaining;
            this1 = this\<lparr>order := (order this)
                      \<lparr>filledQuantity := js_add (filledQuantity (order this)) effectiveQty\<rparr>\<rparr>;
            this2 = this1\<lparr>account := (account this1)
                      \<lparr>balance := js_sub (balance (account this1)) effectiveQty\<rparr>\<rparr>;
            this3 = this2\<lparr>order := (order this2)
                      \<lparr>status :=
                         (if js_strict_eq (filledQuantity (order this2)) (quantity (order this2))
                          then FILLED
                          else if js_gt (filledQuantity (order this2)) (Num 0)
                          then PARTIALLY_FILLED
                          else OPEN)\<rparr>\<rparr>;
            h' = Set_add (processedEventIds this3) (eventId evt) h
        in if js_lt effectiveQty (executedQuantity evt) then
             ([(''applied'', JBool True), (''reason'', JStr ''capped_overfill'')], this3, h')
           else
             ([(''applied'', JBool True)], this3, h'))"

definition getProcessedEventIds :: "'a TradingEngine \<Rightarrow> store \<Rightarrow> addr \<times> store" where
  "getProcessedEventIds this h = new_Set (cells h (processedEventIds this)) h"

definition clearProcessedEvents :: "'a TradingEngine \<Rightarrow> store \<Rightarrow> 'a TradingEngine \<times> store" where
  "clearProcessedEvents this h = (this, Set_clear (processedEventIds this) h)"

text \<open>
  A sequence of calls of \<open>applyExecution\<close> on one engine, as the WebSocket consumer makes
  them, one for each message; the results are collected in order.
\<close>

fun applyAll ::
  "ExecutionEvent list \<Rightarrow> 'a TradingEngine \<Rightarrow> store \<Rightarrow> jsobject list \<times> 'a TradingEngine \<times> store" where
  "applyAll [] this h = ([], this, h)"
| "applyAll (evt # evts) this h =
     (case applyExecution evt this h of
        (r, this', h') \<Rightarrow>
          (case applyAll evts this' h' of
             (rs, this'', h'') \<Rightarrow> (r # rs, this'', h'')))"

text \<open>Applying an event and then an identical copy of it.\<close>

definition applyTwice ::
  "ExecutionEvent \<Rightarrow> 'a TradingEngine \<Rightarrow> store \<Rightarrow> jsobject \<times> 'a TradingEngine \<times> store" where
  "applyTwice evt this h =
     (case applyExecution evt this h of (r, this', h') \<Rightarrow> applyExecution evt this' h')"

section \<open>Auxiliary notions\<close>

text \<open>An event passes all five rejection checks of \<open>applyExecution\<close>.\<close>

definition accepts :: "ExecutionEvent \<Rightarrow> 'a TradingEngine \<Rightarrow> store \<Rightarrow> bool" where
  "accepts evt this h =
     (etype evt = ''execution'' \<and> eventId evt \<notin> cells h (processedEventIds this) \<and>
      orderId evt = id_ord (order this) \<and> \<not> js_le (executedQuantity evt) (Num 0) \<and>
      status (order this) \<noteq> FILLED)"

text \<open>
  The status that the specification's data model assigns to a fill level: \<open>OPEN\<close> at 0,
  \<open>PARTIALLY_FILLED\<close> strictly between 0 and the quantity, \<open>FILLED\<close> at the quantity.
  This definition follows the words of the specification, not the code: the
  specification's quantities are integers, and outside \<open>0 \<le> filled \<le> qty\<close> it assigns no
  status.
\<close>

definition spec_status :: "int \<Rightarrow> int \<Rightarrow> OrderStatus option" where
  "spec_status filled qty =
     (if filled = 0 then Some OPEN
      else if 0 < filled \<and> filled < qty then Some PARTIALLY_FILLED
      else if filled = qty then Some FILLED
      else None)"

text \<open>The event literal of the tests, \<open>{ type: "execution", eventId, orderId, executedQuantity }\<close>.\<close>

definition execution :: "string \<Rightarrow> string \<Rightarrow> number \<Rightarrow> ExecutionEvent" where
  "execution eid oid q = \<lparr>etype = ''execution'', eventId = eid, orderId = oid, executedQuantity = q\<rparr>"

text \<open>
  An engine as the tests build it: a fresh order object, an account with balance 100, and
  \<open>new TradingEngine(order, account)\<close> in the empty store.
\<close>

definition test_engine ::
  "string \<Rightarrow> number \<Rightarrow> number \<Rightarrow> OrderStatus \<Rightarrow> unit TradingEngine \<times> store" where
  "test_engine oid q f st =
     new_TradingEngine \<lparr>id_ord = oid, quantity = q, filledQuantity = f, status = st\<rparr>
       \<lparr>balance = Num 100\<rparr> empty_store"

section \<open>Facts about binary64 rounding\<close>

lemma floor_rat_numeral [simp]:
  "\<lfloor>numeral a / numeral b :: rat\<rfloor> = numeral a div numeral b"
  using floor_divide_of_int_eq [of "numeral a" "numeral b", where ?'a = rat] by simp

lemma floor_rat_neg_numeral [simp]:
  "\<lfloor>- (numeral a / numeral b) :: rat\<rfloor> = - numeral a div numeral b"
  using floor_divide_of_int_eq [of "- numeral a" "numeral b", where ?'a = rat] by simp

lemma round_ties_even_int [simp]: "round_ties_even (of_int n) = n"
  by (simp add: round_ties_even_def)

lemma ilog2_bounds:
  assumes "1 \<le> q"
  shows "0 \<le> ilog2 q" and "2 ^ nat (ilog2 q) \<le> q" and "q < 2 ^ (nat (ilog2 q) + 1)"
proof -
  let ?m = "\<lfloor>q\<rfloor>"
  have m: "0 < ?m" using assms by simp
  have e: "ilog2 q = bitlen ?m - 1"
    using assms by (simp add: ilog2_def)
  have len: "1 \<le> bitlen ?m"
    using m bitlen_eq_zero_iff [of ?m] bitlen_nonneg [of ?m] by linarith
  from bitlen_bounds [OF m]
  have lo: "2 ^ nat (bitlen ?m - 1) \<le> ?m" and hi: "?m < 2 ^ nat (bitlen ?m)"
    by simp_all
  show "0 \<le> ilog2 q" using len e by simp
  have "(2::rat) ^ nat (ilog2 q) = of_int (2 ^ nat (bitlen ?m - 1))"
    using e by simp
  also have "\<dots> \<le> of_int ?m" using lo by (simp only: of_int_le_iff)
  also have "\<dots> \<le> q" by simp
  finally show "2 ^ nat (ilog2 q) \<le> q" .
  have next_pow: "nat (ilog2 q) + 1 = nat (bitlen ?m)"
    using e len by simp
  have "q < of_int (?m + 1)" by simp linarith
  also have "\<dots> \<le> of_int (2 ^ nat (bitlen ?m))"
  proof -
    have "?m + 1 \<le> 2 ^ nat (bitlen ?m)" using hi by linarith
    then show ?thesis by (simp only: of_int_le_iff)
  qed
  also have "\<dots> = (2::rat) ^ (nat (ilog2 q) + 1)"
    unfolding next_pow by simp
  finally show "q < 2 ^ (nat (ilog2 q) + 1)" .
qed

lemma ilog2_bounds_below_one:
  assumes "0 < q" and "q < 1"
  shows "2 powi (ilog2 q) \<le> q" and "q < 2 powi (ilog2 q + 1)"
proof -
  let ?m = "\<lceil>1 / q\<rceil> - 1"
  have y: "1 < 1 / q" using assms by simp
  have m: "0 < ?m" using y by (simp add: less_ceiling_iff)
  have e: "ilog2 q = - bitlen ?m"
    using assms by (simp add: ilog2_def)
  have len: "1 \<le> bitlen ?m"
    using m bitlen_eq_zero_iff [of ?m] bitlen_nonneg [of ?m] by linarith
  from bitlen_bounds [OF m]
  have lo: "2 ^ nat (bitlen ?m - 1) \<le> ?m" and hi: "?m < 2 ^ nat (bitlen ?m)"
    by simp_all
  have up: "1 / q \<le> 2 ^ nat (bitlen ?m)"
  proof -
    have "1 / q \<le> of_int \<lceil>1 / q\<rceil>" by (rule le_of_int_ceiling)
    also have "\<dots> = of_int (?m + 1)" by simp
    also have "\<dots> \<le> of_int (2 ^ nat (bitlen ?m))"
    proof -
      have "?m + 1 \<le> 2 ^ nat (bitlen ?m)" using hi by linarith
      then show ?thesis by (simp only: of_int_le_iff)
    qed
    finally show ?thesis by simp
  qed
  have down: "2 ^ nat (bitlen ?m - 1) < 1 / q"
  proof -
    have "(2::rat) ^ nat (bitlen ?m - 1) = of_int (2 ^ nat (bitlen ?m - 1))" by simp
    also have "\<dots> \<le> of_int ?m" using lo by (simp only: of_int_le_iff)
    also have "\<dots> < 1 / q" by (simp add: ceiling_less_iff [symmetric]) linarith
    finally show ?thesis .
  qed
  have p1: "(2::rat) powi (ilog2 q) = 1 / 2 ^ nat (bitlen ?m)"
    using len by (simp add: e power_int_def power_one_over inverse_eq_divide)
  have p2: "(2::rat) powi (ilog2 q + 1) = 1 / 2 ^ nat (bitlen ?m - 1)"
    using len by (simp add: e power_int_def power_one_over inverse_eq_divide nat_diff_distrib)
  show "2 powi (ilog2 q) \<le> q"
    unfolding p1 using up assms(1) by (simp add: field_simps)
  show "q < 2 powi (ilog2 q + 1)"
    unfolding p2 using down assms(1) by (simp add: field_simps)
qed

lemma ilog2_unique:
  assumes "(2::rat) ^ k \<le> q" and "q < 2 ^ (k + 1)"
  shows "ilog2 q = int k"
proof -
  have q: "1 \<le> q"
    using assms(1) one_le_power [of "2::rat" k] by linarith
  note b = ilog2_bounds [OF q]
  have "(2::rat) ^ k < 2 ^ (nat (ilog2 q) + 1)" using assms(1) b(3) by linarith
  then have 1: "k < nat (ilog2 q) + 1"
    by (rule power_less_imp_less_exp [rotated]) simp
  have "(2::rat) ^ nat (ilog2 q) < 2 ^ (k + 1)" using assms(2) b(2) by linarith
  then have 2: "nat (ilog2 q) < k + 1"
    by (rule power_less_imp_less_exp [rotated]) simp
  from 1 2 b(1) show ?thesis by linarith
qed

lemma round64_of_int:
  assumes "\<bar>n\<bar> \<le> 2 ^ 53"
  shows "round64 (of_int n) = Num (of_int n)"
proof (cases "n = 0")
  case True
  then show ?thesis by (simp add: round64_def)
next
  case False
  let ?q = "of_int n :: rat"
  let ?e = "ilog2 \<bar>?q\<bar>"
  have a1: "1 \<le> \<bar>?q\<bar>"
    using False by (simp flip: of_int_abs)
  note b = ilog2_bounds [OF a1]
  have up: "\<bar>?q\<bar> \<le> 2 ^ 53"
  proof -
    have "\<bar>?q\<bar> = of_int \<bar>n\<bar>" by simp
    also have "\<dots> \<le> of_int (2 ^ 53)" using assms by (simp only: of_int_le_iff)
    finally show ?thesis by simp
  qed
  have "(2::rat) ^ nat ?e \<le> 2 ^ 53" using b(2) up by linarith
  then have e53: "nat ?e \<le> 53" by (rule power_le_imp_le_exp [rotated]) simp
  have emax: "max ?e (- 1022) = ?e" using b(1) by simp
  have "\<exists>k. ?q / (2 powi (?e - 52)) = of_int k"
  proof (cases "?e \<le> 52")
    case True
    then have "(2::rat) powi (?e - 52) = inverse (2 ^ nat (52 - ?e))"
      by (simp add: power_int_def nat_diff_distrib power_one_over inverse_eq_divide)
    then have "?q / (2 powi (?e - 52)) = of_int (n * 2 ^ nat (52 - ?e))"
      by (simp add: field_simps)
    then show ?thesis ..
  next
    case False
    with e53 b(1) have e: "?e = 53" by linarith
    then have "(2::rat) ^ 53 \<le> \<bar>?q\<bar>" using b(2) by simp
    with up have "\<bar>?q\<bar> = 2 ^ 53" by linarith
    then have "of_int \<bar>n\<bar> = (of_int (2 ^ 53) :: rat)" by simp
    then have "\<bar>n\<bar> = 2 ^ 53" by (simp only: of_int_eq_iff)
    then have "n = 2 ^ 53 \<or> n = - (2 ^ 53)" by linarith
    then have "n = 2 * (n div 2)" by auto
    then have "?q = 2 * of_int (n div 2)"
      by (metis of_int_mult of_int_numeral)
    then have "?q / (2 powi (?e - 52)) = of_int (n div 2)"
      using e by simp
    then show ?thesis ..
  qed
  then obtain k where k: "?q / (2 powi (?e - 52)) = of_int k" ..
  have nz: "(2::rat) powi (?e - 52) \<noteq> 0" by simp
  have undo: "of_int k * (2 powi (?e - 52)) = ?q"
    using k nz by (simp add: field_simps)
  have small: "\<not> (2::rat) ^ 1024 \<le> \<bar>?q\<bar>"
  proof -
    have "(2::rat) ^ 53 < 2 ^ 1024" by (rule power_strict_increasing) simp_all
    with up show ?thesis by linarith
  qed
  have "round64 ?q = Num ?q"
    unfolding round64_def Let_def emax k round_ties_even_int undo
    using False small by simp
  then show ?thesis .
qed

lemma round64_numeral [simp]:
  "numeral k \<le> (2::int) ^ 53 \<Longrightarrow> round64 (numeral k) = Num (numeral k)"
  using round64_of_int [of "numeral k"] by simp

lemma round64_neg_numeral [simp]:
  "numeral k \<le> (2::int) ^ 53 \<Longrightarrow> round64 (- numeral k) = Num (- numeral k)"
  using round64_of_int [of "- numeral k"] by simp

lemma round64_0 [simp]: "round64 0 = Num 0"
  by (simp add: round64_def)

lemma round64_1 [simp]: "round64 1 = Num 1"
  using round64_of_int [of 1] by simp

lemma round64_binade:
  assumes "(2::rat) ^ k \<le> \<bar>q\<bar>" and "\<bar>q\<bar> < 2 ^ (k + 1)"
  shows "round64 q =
     (let ulp = 2 powi (int k - 52);
          r = of_int (round_ties_even (q / ulp)) * ulp
      in if 2 ^ 1024 \<le> \<bar>r\<bar> then (if 0 < q then PosInfinity else NegInfinity) else Num r)"
proof -
  have "(0::rat) < 2 ^ k" by simp
  with assms(1) have "0 < \<bar>q\<bar>" by linarith
  then have "q \<noteq> 0" by simp
  moreover have "max (ilog2 \<bar>q\<bar>) (- 1022) = int k"
    using ilog2_unique [OF assms] by simp
  ultimately show ?thesis by (simp add: round64_def)
qed

section \<open>Arithmetic on integers up to \<open>2 ^ 53\<close> is exact\<close>


lemma js_add_int:
  "\<bar>a + b\<bar> \<le> 2 ^ 53 \<Longrightarrow> js_add (Num (of_int a)) (Num (of_int b)) = Num (of_int (a + b))"
  using round64_of_int [of "a + b"] by simp

lemma js_sub_int:
  "\<bar>a - b\<bar> \<le> 2 ^ 53 \<Longrightarrow> js_sub (Num (of_int a)) (Num (of_int b)) = Num (of_int (a - b))"
  using round64_of_int [of "a - b"] by (simp add: js_sub_def)

lemma js_lt_int: "js_lt (Num (of_int a)) (Num (of_int b)) = (a < b)"
  by simp

lemma js_le_int: "js_le (Num (of_int a)) (Num (of_int b)) = (a \<le> b)"
  by (auto simp add: js_le_def)

lemma js_le_int_0: "js_le (Num (of_int a)) (Num 0) = (a \<le> 0)"
  using js_le_int [of a 0] by simp

lemma js_gt_int_0: "js_gt (Num (of_int a)) (Num 0) = (0 < a)"
  by (simp add: js_gt_def)

lemma js_strict_eq_int: "js_strict_eq (Num (of_int a)) (Num (of_int b)) = (a = b)"
  by (simp add: js_strict_eq_def)

lemma Math_min_int: "Math_min (Num (of_int a)) (Num (of_int b)) = Num (of_int (min a b))"
  by (simp add: Math_min_def min_def)

lemmas js_eval =
  js_sub_def js_gt_def js_le_def js_strict_eq_def Math_min_def

section \<open>Basic facts about \<open>applyExecution\<close>\<close>

lemma applied_of_simps:
  "applied_of [(''applied'', JBool False), (''reason'', JStr r)] = False"
  "applied_of [(''applied'', JBool True), (''reason'', JStr r)] = True"
  "applied_of [(''applied'', JBool True)] = True"
  by (simp_all add: applied_of_def get_prop_def)

lemma applied_iff_accepts:
  "applied_of (fst (applyExecution evt this h)) = accepts evt this h"
  by (simp add: applyExecution_def accepts_def Set_has_def Let_def applied_of_simps)

lemma rejected_unchanged:
  "\<not> accepts evt this h \<Longrightarrow> snd (applyExecution evt this h) = (this, h)"
  by (auto simp add: applyExecution_def accepts_def Set_has_def)

lemma accepted_engine:
  assumes "accepts evt this h"
  shows "fst (snd (applyExecution evt this h)) =
     this\<lparr>order := (order this)
             \<lparr>filledQuantity :=
                js_add (filledQuantity (order this))
                  (Math_min (executedQuantity evt)
                     (js_sub (quantity (order this)) (filledQuantity (order this)))),
              status :=
                (if js_strict_eq
                      (js_add (filledQuantity (order this))
                         (Math_min (executedQuantity evt)
                            (js_sub (quantity (order this)) (filledQuantity (order this)))))
                      (quantity (order this))
                 then FILLED
                 else if js_gt
                      (js_add (filledQuantity (order this))
                         (Math_min (executedQuantity evt)
                            (js_sub (quantity (order this)) (filledQuantity (order this)))))
                      (Num 0)
                 then PARTIALLY_FILLED else OPEN)\<rparr>,
           account := (account this)
             \<lparr>balance :=
                js_sub (balance (account this))
                  (Math_min (executedQuantity evt)
                     (js_sub (quantity (order this)) (filledQuantity (order this))))\<rparr>\<rparr>"
  using assms by (simp add: applyExecution_def accepts_def Set_has_def Let_def)

lemma accepted_store:
  "accepts evt this h \<Longrightarrow>
   snd (snd (applyExecution evt this h)) = Set_add (processedEventIds this) (eventId evt) h"
  by (simp add: applyExecution_def accepts_def Set_has_def Let_def)

lemma accepted_result:
  "accepts evt this h \<Longrightarrow>
   fst (applyExecution evt this h) =
     (if js_lt (Math_min (executedQuantity evt)
                  (js_sub (quantity (order this)) (filledQuantity (order this))))
               (executedQuantity evt)
      then [(''applied'', JBool True), (''reason'', JStr ''capped_overfill'')]
      else [(''applied'', JBool True)])"
  by (auto simp add: applyExecution_def accepts_def Set_has_def Let_def)

text \<open>
  One accepted call on an order whose quantity and filled quantity are integers with
  \<open>0 \<le> filled \<le> quantity \<le> 2 ^ 53\<close>, for an event whose executed quantity is an integer:
  every intermediate result is an integer of magnitude at most \<open>2 ^ 53\<close>, so it is exact.
\<close>

lemma accepted_int:
  assumes q: "quantity (order this) = Num (of_int q)"
      and f: "filledQuantity (order this) = Num (of_int f)"
      and range: "0 \<le> f" "f \<le> q" "q \<le> 2 ^ 53"
      and k: "executedQuantity evt = Num (of_int k)"
      and acc: "accepts evt this h"
  shows "0 < k"
    and "fst (snd (applyExecution evt this h)) =
     this\<lparr>order := (order this)
             \<lparr>filledQuantity := Num (of_int (f + min k (q - f))),
              status :=
                (if f + min k (q - f) = q then FILLED
                 else if 0 < f + min k (q - f) then PARTIALLY_FILLED else OPEN)\<rparr>,
           account := (account this)
             \<lparr>balance := js_sub (balance (account this)) (Num (of_int (min k (q - f))))\<rparr>\<rparr>"
    and "fst (applyExecution evt this h) =
     (if q - f < k
      then [(''applied'', JBool True), (''reason'', JStr ''capped_overfill'')]
      else [(''applied'', JBool True)])"
proof -
  show pos: "0 < k"
    using acc k by (simp add: accepts_def js_le_int_0)
  have rem: "js_sub (Num (of_int q)) (Num (of_int f)) = Num (of_int (q - f))"
    using range by (intro js_sub_int) simp
  have eff: "Math_min (Num (of_int k)) (Num (of_int (q - f))) = Num (of_int (min k (q - f)))"
    by (rule Math_min_int)
  have sum: "js_add (Num (of_int f)) (Num (of_int (min k (q - f))))
      = Num (of_int (f + min k (q - f)))"
    using range pos by (intro js_add_int) simp
  show "fst (snd (applyExecution evt this h)) =
     this\<lparr>order := (order this)
             \<lparr>filledQuantity := Num (of_int (f + min k (q - f))),
              status :=
                (if f + min k (q - f) = q then FILLED
                 else if 0 < f + min k (q - f) then PARTIALLY_FILLED else OPEN)\<rparr>,
           account := (account this)
             \<lparr>balance := js_sub (balance (account this)) (Num (of_int (min k (q - f))))\<rparr>\<rparr>"
    unfolding accepted_engine [OF acc] q f k rem eff sum js_strict_eq_int js_gt_int_0 ..
  show "fst (applyExecution evt this h) =
     (if q - f < k
      then [(''applied'', JBool True), (''reason'', JStr ''capped_overfill'')]
      else [(''applied'', JBool True)])"
    unfolding accepted_result [OF acc] q f k rem eff js_lt_int by simp
qed

lemma test_engine_simps:
  "fst (test_engine oid q f st) =
     \<lparr>processedEventIds = 0,
      order = \<lparr>id_ord = oid, quantity = q, filledQuantity = f, status = st\<rparr>,
      account = \<lparr>balance = Num 100\<rparr>\<rparr>"
  "snd (test_engine oid q f st) = \<lparr>cells = (\<lambda>_. {})(0 := {}), next_addr = 1\<rparr>"
  by (simp_all add: test_engine_def new_TradingEngine_def new_Set_def empty_store_def)

lemma quantity_id_unchanged:
  "quantity (order (fst (snd (applyExecution evt this h)))) = quantity (order this) \<and>
   id_ord (order (fst (snd (applyExecution evt this h)))) = id_ord (order this) \<and>
   processedEventIds (fst (snd (applyExecution evt this h))) = processedEventIds this"
proof (cases "accepts evt this h")
  case True
  then show ?thesis by (simp add: accepted_engine)
next
  case False
  then show ?thesis by (simp add: rejected_unchanged)
qed

text \<open>
  The set of an engine is allocated in the store: the constructor allocates it, and
  \<open>applyExecution\<close> allocates nothing and keeps the engine's reference.
\<close>

lemma new_TradingEngine_allocated:
  "processedEventIds (fst (new_TradingEngine ord acc h))
     < next_addr (snd (new_TradingEngine ord acc h))"
  by (simp add: new_TradingEngine_def new_Set_def)

lemma applyExecution_next_addr:
  "next_addr (snd (snd (applyExecution evt this h))) = next_addr h"
  by (cases "accepts evt this h")
    (simp_all add: accepted_store rejected_unchanged Set_add_def)

lemma applyExecution_store_local:
  assumes "cells h1 (processedEventIds this) = cells h2 (processedEventIds this)"
  shows "fst (applyExecution evt this h1) = fst (applyExecution evt this h2) \<and>
         fst (snd (applyExecution evt this h1)) = fst (snd (applyExecution evt this h2)) \<and>
         cells (snd (snd (applyExecution evt this h1))) (processedEventIds this) =
           cells (snd (snd (applyExecution evt this h2))) (processedEventIds this)"
proof -
  have res: "fst (applyExecution evt this h1) = fst (applyExecution evt this h2)"
    using assms by (simp add: applyExecution_def Set_has_def Let_def)
  have acc: "accepts evt this h1 = accepts evt this h2"
    using assms by (simp add: accepts_def)
  show ?thesis
  proof (cases "accepts evt this h2")
    case True
    with acc assms res show ?thesis
      by (simp add: accepted_engine accepted_store Set_add_def)
  next
    case False
    with acc assms res show ?thesis
      by (simp add: rejected_unchanged)
  qed
qed

lemma processedEventIds_unchanged:
  "processedEventIds (fst (snd (applyExecution evt this h))) = processedEventIds this"
  by (cases "accepts evt this h") (simp_all add: accepted_engine rejected_unchanged)

lemma applyAll_store_local:
  assumes "cells h1 (processedEventIds this) = cells h2 (processedEventIds this)"
  shows "fst (applyAll evts this h1) = fst (applyAll evts this h2) \<and>
         fst (snd (applyAll evts this h1)) = fst (snd (applyAll evts this h2)) \<and>
         cells (snd (snd (applyAll evts this h1))) (processedEventIds this) =
           cells (snd (snd (applyAll evts this h2))) (processedEventIds this)"
  using assms
proof (induction evts arbitrary: this h1 h2)
  case Nil
  then show ?case by simp
next
  case (Cons evt evts)
  obtain r1 t1 k1 where s1: "applyExecution evt this h1 = (r1, t1, k1)"
    by (cases "applyExecution evt this h1") auto
  obtain r2 t2 k2 where s2: "applyExecution evt this h2 = (r2, t2, k2)"
    by (cases "applyExecution evt this h2") auto
  have eq: "r1 = r2" "t1 = t2" "cells k1 (processedEventIds this) = cells k2 (processedEventIds this)"
    using applyExecution_store_local [OF Cons.prems, of evt] s1 s2 by simp_all
  have p: "processedEventIds t2 = processedEventIds this"
    using processedEventIds_unchanged [of evt this h2] s2 by simp
  have "cells k1 (processedEventIds t2) = cells k2 (processedEventIds t2)"
    using eq(3) p by simp
  from Cons.IH [OF this] have
    "fst (applyAll evts t2 k1) = fst (applyAll evts t2 k2) \<and>
     fst (snd (applyAll evts t2 k1)) = fst (snd (applyAll evts t2 k2)) \<and>
     cells (snd (snd (applyAll evts t2 k1))) (processedEventIds this) =
       cells (snd (snd (applyAll evts t2 k2))) (processedEventIds this)"
    using p by simp
  moreover have "applyAll (evt # evts) this h1 =
      (r1 # fst (applyAll evts t1 k1), fst (snd (applyAll evts t1 k1)),
       snd (snd (applyAll evts t1 k1)))"
    by (simp add: s1 split: prod.splits)
  moreover have "applyAll (evt # evts) this h2 =
      (r2 # fst (applyAll evts t2 k2), fst (snd (applyAll evts t2 k2)),
       snd (snd (applyAll evts t2 k2)))"
    by (simp add: s2 split: prod.splits)
  ultimately show ?case
    using eq by simp
qed

section \<open>Binary64 results used in the examples\<close>

lemma round64_examples:
  "round64 18014398509481982 = Num 18014398509481982"
  "round64 18014398509481984 = Num 18014398509481984"
  "round64 18014398509481979 = Num 18014398509481980"
  "round64 18014398509481983 = Num 18014398509481984"
  "round64 9007199254740994 = Num 9007199254740994"
  "round64 9007199254740993 = Num 9007199254740992"
  "round64 (- 9007199254740993) = Num (- 9007199254740992)"
  "round64 (- 18014398509481883) = Num (- 18014398509481884)"
  "round64 (- 18014398509481880) = Num (- 18014398509481880)"
  by (simp_all add: round64_binade [of 53] round64_binade [of 54] round_ties_even_def Let_def)

lemma round64_half: "round64 (1 / 2) = Num (1 / 2)"
proof -
  have "ilog2 (1 / 2) = - 1"
    by (simp add: ilog2_def bitlen_alt_def)
  then show ?thesis
    by (simp add: round64_def round_ties_even_def Let_def power_int_def power_one_over)
qed

section \<open>Sequences of calls on integer quantities\<close>



section \<open>Rejections\<close>

text \<open>
  Claim C3 (rejection precedence and atomicity). \<open>applyExecution\<close> tests its rejection
  conditions in the order: type other than \<open>"execution"\<close>, event id already processed,
  order id different from the order's, \<open>executedQuantity <= 0\<close>, order already
  \<open>FILLED\<close>. It returns \<open>applied: false\<close> with the reason of the first condition that
  holds, it returns \<open>applied: true\<close> when none holds, and whenever it returns
  \<open>applied: false\<close> the engine (order and account) and the store (the set of processed
  event ids) are exactly as before the call.
\<close>

theorem rejection_precedence:
  assumes "applyExecution evt this h = (r, this', h')"
  shows "(etype evt \<noteq> ''execution'' \<longrightarrow>
            r = [(''applied'', JBool False), (''reason'', JStr ''unsupported_event'')]) \<and>
         (etype evt = ''execution'' \<and> eventId evt \<in> cells h (processedEventIds this) \<longrightarrow>
            r = [(''applied'', JBool False), (''reason'', JStr ''duplicate_event'')]) \<and>
         (etype evt = ''execution'' \<and> eventId evt \<notin> cells h (processedEventIds this) \<and>
          orderId evt \<noteq> id_ord (order this) \<longrightarrow>
            r = [(''applied'', JBool False), (''reason'', JStr ''unknown_order'')]) \<and>
         (etype evt = ''execution'' \<and> eventId evt \<notin> cells h (processedEventIds this) \<and>
          orderId evt = id_ord (order this) \<and> js_le (executedQuantity evt) (Num 0) \<longrightarrow>
            r = [(''applied'', JBool False), (''reason'', JStr ''invalid_executed_quantity'')]) \<and>
         (etype evt = ''execution'' \<and> eventId evt \<notin> cells h (processedEventIds this) \<and>
          orderId evt = id_ord (order this) \<and> \<not> js_le (executedQuantity evt) (Num 0) \<and>
          status (order this) = FILLED \<longrightarrow>
            r = [(''applied'', JBool False), (''reason'', JStr ''already_filled'')]) \<and>
         (etype evt = ''execution'' \<and> eventId evt \<notin> cells h (processedEventIds this) \<and>
          orderId evt = id_ord (order this) \<and> \<not> js_le (executedQuantity evt) (Num 0) \<and>
          status (order this) \<noteq> FILLED \<longrightarrow> applied_of r) \<and>
         (\<not> applied_of r \<longrightarrow> this' = this \<and> h' = h)"
proof -
  have r: "r = fst (applyExecution evt this h)" and s: "(this', h') = snd (applyExecution evt this h)"
    using assms by simp_all
  have rejections:
    "(etype evt \<noteq> ''execution'' \<longrightarrow>
            r = [(''applied'', JBool False), (''reason'', JStr ''unsupported_event'')]) \<and>
     (etype evt = ''execution'' \<and> eventId evt \<in> cells h (processedEventIds this) \<longrightarrow>
            r = [(''applied'', JBool False), (''reason'', JStr ''duplicate_event'')]) \<and>
     (etype evt = ''execution'' \<and> eventId evt \<notin> cells h (processedEventIds this) \<and>
          orderId evt \<noteq> id_ord (order this) \<longrightarrow>
            r = [(''applied'', JBool False), (''reason'', JStr ''unknown_order'')]) \<and>
     (etype evt = ''execution'' \<and> eventId evt \<notin> cells h (processedEventIds this) \<and>
          orderId evt = id_ord (order this) \<and> js_le (executedQuantity evt) (Num 0) \<longrightarrow>
            r = [(''applied'', JBool False), (''reason'', JStr ''invalid_executed_quantity'')]) \<and>
     (etype evt = ''execution'' \<and> eventId evt \<notin> cells h (processedEventIds this) \<and>
          orderId evt = id_ord (order this) \<and> \<not> js_le (executedQuantity evt) (Num 0) \<and>
          status (order this) = FILLED \<longrightarrow>
            r = [(''applied'', JBool False), (''reason'', JStr ''already_filled'')])"
    unfolding r by (simp add: applyExecution_def Set_has_def)
  have applied: "applied_of r = accepts evt this h"
    unfolding r by (rule applied_iff_accepts)
  have unchanged: "\<not> applied_of r \<longrightarrow> this' = this \<and> h' = h"
    using rejected_unchanged [of evt this h] s applied by auto
  from rejections applied unchanged show ?thesis
    by (simp add: accepts_def)
qed

theorem rejection_precedence_witness:
  "applyExecution (execution ''E4'' ''WRONG_ID'' (Num 5)) (fst (test_engine ''O4'' (Num 10) (Num 0) OPEN))
      (snd (test_engine ''O4'' (Num 10) (Num 0) OPEN)) =
     ([(''applied'', JBool False), (''reason'', JStr ''unknown_order'')],
      fst (test_engine ''O4'' (Num 10) (Num 0) OPEN), snd (test_engine ''O4'' (Num 10) (Num 0) OPEN)) \<and>
   applyExecution (execution ''E3'' ''O3'' (Num 0)) (fst (test_engine ''O3'' (Num 10) (Num 0) OPEN))
      (snd (test_engine ''O3'' (Num 10) (Num 0) OPEN)) =
     ([(''applied'', JBool False), (''reason'', JStr ''invalid_executed_quantity'')],
      fst (test_engine ''O3'' (Num 10) (Num 0) OPEN), snd (test_engine ''O3'' (Num 10) (Num 0) OPEN)) \<and>
   applyExecution ((execution ''E1'' ''O1'' (Num 5))\<lparr>etype := ''cancellation''\<rparr>)
      (fst (test_engine ''O1'' (Num 10) (Num 0) OPEN)) (snd (test_engine ''O1'' (Num 10) (Num 0) OPEN)) =
     ([(''applied'', JBool False), (''reason'', JStr ''unsupported_event'')],
      fst (test_engine ''O1'' (Num 10) (Num 0) OPEN), snd (test_engine ''O1'' (Num 10) (Num 0) OPEN)) \<and>
   applyExecution (execution ''E3'' ''O3'' (Num 1)) (fst (test_engine ''O3'' (Num 10) (Num 10) FILLED))
      (snd (test_engine ''O3'' (Num 10) (Num 10) FILLED)) =
     ([(''applied'', JBool False), (''reason'', JStr ''already_filled'')],
      fst (test_engine ''O3'' (Num 10) (Num 10) FILLED), snd (test_engine ''O3'' (Num 10) (Num 10) FILLED)) \<and>
   applyExecution (execution ''E1'' ''O1'' (Num 4)) (fst (test_engine ''O1'' (Num 10) (Num 0) OPEN))
      (Set_add 0 ''E1'' (snd (test_engine ''O1'' (Num 10) (Num 0) OPEN))) =
     ([(''applied'', JBool False), (''reason'', JStr ''duplicate_event'')],
      fst (test_engine ''O1'' (Num 10) (Num 0) OPEN), Set_add 0 ''E1'' (snd (test_engine ''O1'' (Num 10) (Num 0) OPEN))) \<and>
   applied_of (fst (applyExecution (execution ''E1'' ''O1'' (Num 4)) (fst (test_engine ''O1'' (Num 10) (Num 0) OPEN))
      (snd (test_engine ''O1'' (Num 10) (Num 0) OPEN))))"
proof -
  have split: "applyExecution evt this h =
      (fst (applyExecution evt this h), fst (snd (applyExecution evt this h)),
       snd (snd (applyExecution evt this h)))"
    for evt and this :: "unit TradingEngine" and h
    by simp
  note p = rejection_precedence [OF split]
  have 1: "applyExecution (execution ''E4'' ''WRONG_ID'' (Num 5)) (fst (test_engine ''O4'' (Num 10) (Num 0) OPEN))
      (snd (test_engine ''O4'' (Num 10) (Num 0) OPEN)) =
     ([(''applied'', JBool False), (''reason'', JStr ''unknown_order'')],
      fst (test_engine ''O4'' (Num 10) (Num 0) OPEN), snd (test_engine ''O4'' (Num 10) (Num 0) OPEN))"
    using p [of "execution ''E4'' ''WRONG_ID'' (Num 5)" "fst (test_engine ''O4'' (Num 10) (Num 0) OPEN)"
        "snd (test_engine ''O4'' (Num 10) (Num 0) OPEN)"]
    by (simp add: execution_def test_engine_simps applied_of_simps prod_eq_iff js_eval)
  have 2: "applyExecution (execution ''E3'' ''O3'' (Num 0)) (fst (test_engine ''O3'' (Num 10) (Num 0) OPEN))
      (snd (test_engine ''O3'' (Num 10) (Num 0) OPEN)) =
     ([(''applied'', JBool False), (''reason'', JStr ''invalid_executed_quantity'')],
      fst (test_engine ''O3'' (Num 10) (Num 0) OPEN), snd (test_engine ''O3'' (Num 10) (Num 0) OPEN))"
    using p [of "execution ''E3'' ''O3'' (Num 0)" "fst (test_engine ''O3'' (Num 10) (Num 0) OPEN)"
        "snd (test_engine ''O3'' (Num 10) (Num 0) OPEN)"]
    by (simp add: execution_def test_engine_simps applied_of_simps prod_eq_iff js_eval)
  have 3: "applyExecution ((execution ''E1'' ''O1'' (Num 5))\<lparr>etype := ''cancellation''\<rparr>)
      (fst (test_engine ''O1'' (Num 10) (Num 0) OPEN)) (snd (test_engine ''O1'' (Num 10) (Num 0) OPEN)) =
     ([(''applied'', JBool False), (''reason'', JStr ''unsupported_event'')],
      fst (test_engine ''O1'' (Num 10) (Num 0) OPEN), snd (test_engine ''O1'' (Num 10) (Num 0) OPEN))"
    using p [of "(execution ''E1'' ''O1'' (Num 5))\<lparr>etype := ''cancellation''\<rparr>"
        "fst (test_engine ''O1'' (Num 10) (Num 0) OPEN)" "snd (test_engine ''O1'' (Num 10) (Num 0) OPEN)"]
    by (simp add: execution_def test_engine_simps applied_of_simps prod_eq_iff js_eval)
  have 4: "applyExecution (execution ''E3'' ''O3'' (Num 1)) (fst (test_engine ''O3'' (Num 10) (Num 10) FILLED))
      (snd (test_engine ''O3'' (Num 10) (Num 10) FILLED)) =
     ([(''applied'', JBool False), (''reason'', JStr ''already_filled'')],
      fst (test_engine ''O3'' (Num 10) (Num 10) FILLED), snd (test_engine ''O3'' (Num 10) (Num 10) FILLED))"
    using p [of "execution ''E3'' ''O3'' (Num 1)" "fst (test_engine ''O3'' (Num 10) (Num 10) FILLED)"
        "snd (test_engine ''O3'' (Num 10) (Num 10) FILLED)"]
    by (simp add: execution_def test_engine_simps applied_of_simps prod_eq_iff js_eval)
  have 5: "applyExecution (execution ''E1'' ''O1'' (Num 4)) (fst (test_engine ''O1'' (Num 10) (Num 0) OPEN))
      (Set_add 0 ''E1'' (snd (test_engine ''O1'' (Num 10) (Num 0) OPEN))) =
     ([(''applied'', JBool False), (''reason'', JStr ''duplicate_event'')],
      fst (test_engine ''O1'' (Num 10) (Num 0) OPEN), Set_add 0 ''E1'' (snd (test_engine ''O1'' (Num 10) (Num 0) OPEN)))"
    using p [of "execution ''E1'' ''O1'' (Num 4)" "fst (test_engine ''O1'' (Num 10) (Num 0) OPEN)"
        "Set_add 0 ''E1'' (snd (test_engine ''O1'' (Num 10) (Num 0) OPEN))"]
    by (simp add: execution_def test_engine_simps applied_of_simps prod_eq_iff Set_add_def js_eval)
  have 6: "applied_of (fst (applyExecution (execution ''E1'' ''O1'' (Num 4))
      (fst (test_engine ''O1'' (Num 10) (Num 0) OPEN)) (snd (test_engine ''O1'' (Num 10) (Num 0) OPEN))))"
    using p [of "execution ''E1'' ''O1'' (Num 4)" "fst (test_engine ''O1'' (Num 10) (Num 0) OPEN)"
        "snd (test_engine ''O1'' (Num 10) (Num 0) OPEN)"]
    by (simp add: execution_def test_engine_simps js_eval)
  from 1 2 3 4 5 6 show ?thesis by simp
qed

section \<open>Terminal state\<close>

text \<open>
  Claim C4 (terminal state). When the order's status is \<open>FILLED\<close>, a call of
  \<open>applyExecution\<close> with any event, also one whose event id was never seen, changes
  neither the filled quantity, nor the status, nor the balance (nothing of the engine and
  nothing of the store changes), and an event of type \<open>"execution"\<close> with a fresh event
  id, the order's id and a quantity that passes the check \<open><= 0\<close> is rejected with
  reason \<open>already_filled\<close>.
\<close>

theorem filled_is_terminal:
  assumes "status (order this) = FILLED"
      and "applyExecution evt this h = (r, this', h')"
  shows "filledQuantity (order this') = filledQuantity (order this) \<and>
         status (order this') = status (order this) \<and>
         balance (account this') = balance (account this) \<and>
         this' = this \<and> h' = h \<and> \<not> applied_of r \<and>
         (etype evt = ''execution'' \<and> eventId evt \<notin> cells h (processedEventIds this) \<and>
          orderId evt = id_ord (order this) \<and> \<not> js_le (executedQuantity evt) (Num 0) \<longrightarrow>
            r = [(''applied'', JBool False), (''reason'', JStr ''already_filled'')])"
proof -
  have no: "\<not> accepts evt this h"
    using assms(1) by (simp add: accepts_def)
  have same: "this' = this" "h' = h"
    using rejected_unchanged [OF no] assms(2) by simp_all
  have rej: "\<not> applied_of r"
    using applied_iff_accepts [of evt this h] no assms(2) by simp
  have reason: "etype evt = ''execution'' \<and> eventId evt \<notin> cells h (processedEventIds this) \<and>
          orderId evt = id_ord (order this) \<and> \<not> js_le (executedQuantity evt) (Num 0) \<longrightarrow>
            r = [(''applied'', JBool False), (''reason'', JStr ''already_filled'')]"
    using assms by (auto simp add: applyExecution_def Set_has_def)
  from same rej reason show ?thesis by simp
qed

text \<open>
  The test "rejects executions after order is FILLED": order \<open>O3\<close>, filled 10 of 10.
\<close>

theorem filled_is_terminal_witness:
  "status (order (fst (test_engine ''O3'' (Num 10) (Num 10) FILLED))) = FILLED \<and>
   applyExecution (execution ''E3'' ''O3'' (Num 1)) (fst (test_engine ''O3'' (Num 10) (Num 10) FILLED))
      (snd (test_engine ''O3'' (Num 10) (Num 10) FILLED)) =
     ([(''applied'', JBool False), (''reason'', JStr ''already_filled'')],
      fst (test_engine ''O3'' (Num 10) (Num 10) FILLED), snd (test_engine ''O3'' (Num 10) (Num 10) FILLED))"
proof -
  have st: "status (order (fst (test_engine ''O3'' (Num 10) (Num 10) FILLED))) = FILLED"
    by (simp add: test_engine_simps)
  have split: "applyExecution evt this h =
      (fst (applyExecution evt this h), fst (snd (applyExecution evt this h)),
       snd (snd (applyExecution evt this h)))"
    for evt and this :: "unit TradingEngine" and h
    by simp
  from filled_is_terminal [OF st split, of "execution ''E3'' ''O3'' (Num 1)" "snd (test_engine ''O3'' (Num 10) (Num 10) FILLED)"] st
  show ?thesis
    by (simp add: execution_def test_engine_simps prod_eq_iff js_eval)
qed

section \<open>Idempotence\<close>

text \<open>
  Claim C1 (idempotence), as the code has it. Applying an event and then an identical
  copy of it leaves the engine (order and account) and the store (the processed event
  ids) exactly as the first call left them, and the second call returns \<open>applied: false\<close>.
  Its reason is \<open>duplicate_event\<close> when the first call returned \<open>applied: true\<close>; when the
  first call rejected the event, the event id was not recorded and the second call returns
  the same rejection as the first.
\<close>

theorem apply_twice:
  assumes "applyExecution evt this h = (r1, this1, h1)"
      and "applyExecution evt this1 h1 = (r2, this2, h2)"
  shows "this2 = this1 \<and> h2 = h1 \<and> \<not> applied_of r2 \<and>
         (applied_of r1 \<longrightarrow>
            r2 = [(''applied'', JBool False), (''reason'', JStr ''duplicate_event'')]) \<and>
         (\<not> applied_of r1 \<longrightarrow> r2 = r1)"
proof (cases "accepts evt this h")
  case True
  have h1: "h1 = Set_add (processedEventIds this) (eventId evt) h"
    using accepted_store [OF True] assms(1) by simp
  have p1: "processedEventIds this1 = processedEventIds this"
    using quantity_id_unchanged [of evt this h] assms(1) by simp
  have ty: "etype evt = ''execution''"
    using True by (simp add: accepts_def)
  have seen: "Set_has (processedEventIds this1) (eventId evt) h1"
    by (simp add: h1 p1 Set_has_def Set_add_def)
  have second: "applyExecution evt this1 h1 =
      ([(''applied'', JBool False), (''reason'', JStr ''duplicate_event'')], this1, h1)"
    using ty seen by (simp add: applyExecution_def)
  have "applied_of r1"
    using applied_iff_accepts [of evt this h] True assms(1) by simp
  with second assms(2) show ?thesis by (auto simp add: applied_of_simps)
next
  case False
  have same: "this1 = this" "h1 = h"
    using rejected_unchanged [OF False] assms(1) by simp_all
  have r: "r2 = r1" "this2 = this" "h2 = h"
    using assms rejected_unchanged [OF False] unfolding same by simp_all
  have "\<not> applied_of r1"
    using applied_iff_accepts [of evt this h] False assms(1) by simp
  with r same show ?thesis by simp
qed

text \<open>
  Scenario 1 of the specification: \<open>E1\<close> with quantity 4 on an open order of 10.
\<close>

theorem apply_twice_witness:
  "applyExecution (execution ''E1'' ''O1'' (Num 4)) (fst (test_engine ''O1'' (Num 10) (Num 0) OPEN))
      (snd (test_engine ''O1'' (Num 10) (Num 0) OPEN)) =
     ([(''applied'', JBool True)],
      \<lparr>processedEventIds = 0,
       order = \<lparr>id_ord = ''O1'', quantity = Num 10, filledQuantity = Num 4, status = PARTIALLY_FILLED\<rparr>,
       account = \<lparr>balance = Num 96\<rparr>\<rparr>,
      \<lparr>cells = (\<lambda>_. {})(0 := {''E1''}), next_addr = 1\<rparr>) \<and>
   applyExecution (execution ''E1'' ''O1'' (Num 4))
      \<lparr>processedEventIds = 0,
       order = \<lparr>id_ord = ''O1'', quantity = Num 10, filledQuantity = Num 4, status = PARTIALLY_FILLED\<rparr>,
       account = \<lparr>balance = Num 96\<rparr>\<rparr>
      \<lparr>cells = (\<lambda>_. {})(0 := {''E1''}), next_addr = 1\<rparr> =
     ([(''applied'', JBool False), (''reason'', JStr ''duplicate_event'')],
      \<lparr>processedEventIds = 0,
       order = \<lparr>id_ord = ''O1'', quantity = Num 10, filledQuantity = Num 4, status = PARTIALLY_FILLED\<rparr>,
       account = \<lparr>balance = Num 96\<rparr>\<rparr>,
      \<lparr>cells = (\<lambda>_. {})(0 := {''E1''}), next_addr = 1\<rparr>)"
proof -
  have first: "applyExecution (execution ''E1'' ''O1'' (Num 4)) (fst (test_engine ''O1'' (Num 10) (Num 0) OPEN))
      (snd (test_engine ''O1'' (Num 10) (Num 0) OPEN)) =
     ([(''applied'', JBool True)],
      \<lparr>processedEventIds = 0,
       order = \<lparr>id_ord = ''O1'', quantity = Num 10, filledQuantity = Num 4, status = PARTIALLY_FILLED\<rparr>,
       account = \<lparr>balance = Num 96\<rparr>\<rparr>,
      \<lparr>cells = (\<lambda>_. {})(0 := {''E1''}), next_addr = 1\<rparr>)"
    by (simp add: applyExecution_def execution_def test_engine_simps Set_has_def Set_add_def js_eval)
  have split: "applyExecution evt this h =
      (fst (applyExecution evt this h), fst (snd (applyExecution evt this h)),
       snd (snd (applyExecution evt this h)))"
    for evt and this :: "unit TradingEngine" and h
    by simp
  from apply_twice [OF first split] first show ?thesis
    by (simp add: applied_of_simps prod_eq_iff)
qed

text \<open>
  The claim as stated promises \<open>duplicate_event\<close> for every execution event. An event with
  quantity 0 on a new engine (the test "rejects executions with invalid (non-positive)
  quantity") is rejected twice with \<open>invalid_executed_quantity\<close>.
\<close>

theorem apply_twice_rejected_counterexample:
  "fst (applyTwice (execution ''E6a'' ''O6'' (Num 0)) (fst (test_engine ''O6'' (Num 10) (Num 0) OPEN))
         (snd (test_engine ''O6'' (Num 10) (Num 0) OPEN))) =
     [(''applied'', JBool False), (''reason'', JStr ''invalid_executed_quantity'')] \<and>
   fst (applyTwice (execution ''E6a'' ''O6'' (Num 0)) (fst (test_engine ''O6'' (Num 10) (Num 0) OPEN))
         (snd (test_engine ''O6'' (Num 10) (Num 0) OPEN))) \<noteq>
     [(''applied'', JBool False), (''reason'', JStr ''duplicate_event'')]"
  by (simp add: applyTwice_def applyExecution_def execution_def test_engine_simps Set_has_def js_eval)

section \<open>Invariants of the order\<close>







text \<open>
  Claim C9 (a successful call fills at least one unit), as the code has it. For an order
  whose quantity and filled quantity are integers with \<open>0 < quantity \<le> 2 ^ 53\<close> and
  \<open>0 \<le> filledQuantity \<le> quantity\<close> and whose status is the one that the specification
  assigns, and an event whose executed quantity is an integer, a call that returns
  \<open>applied: true\<close> adds \<open>min(executedQuantity, remaining)\<close> to the filled quantity, this
  amount is at least 1, the filled quantity grows strictly, and the new status is not
  \<open>OPEN\<close>.
\<close>

theorem success_fills_at_least_one:
  assumes "quantity (order this) = Num (of_int q)"
      and "filledQuantity (order this) = Num (of_int f)"
      and "0 < q" and "0 \<le> f" and "f \<le> q" and "q \<le> 2 ^ 53"
      and "spec_status f q = Some (status (order this))"
      and "executedQuantity evt = Num (of_int k)"
      and "applyExecution evt this h = (r, this', h')"
      and "applied_of r"
  shows "filledQuantity (order this') = Num (of_int (f + min k (q - f))) \<and>
         1 \<le> min k (q - f) \<and>
         js_lt (filledQuantity (order this)) (filledQuantity (order this')) \<and>
         status (order this') \<noteq> OPEN"
proof -
  have acc: "accepts evt this h"
    using applied_iff_accepts [of evt this h] assms(9,10) by simp
  note a = accepted_int [OF assms(1,2,4,5,6,8) acc]
  have unfilled: "status (order this) \<noteq> FILLED"
    using acc by (simp add: accepts_def)
  have room: "f < q"
    using assms(3,4,5,7) unfilled by (auto simp add: spec_status_def split: if_splits)
  have eff: "1 \<le> min k (q - f)"
    using a(1) room by simp
  have this': "this' = fst (snd (applyExecution evt this h))"
    using assms(9) by simp
  show ?thesis
    unfolding this' a(2) using eff assms(2,4) by simp
qed

text \<open>
  The first event of the test "transitions through OPEN -> PARTIALLY_FILLED -> FILLED".
\<close>

theorem success_fills_at_least_one_witness:
  "spec_status 0 10 = Some OPEN \<and>
   applyExecution (execution ''E7a'' ''O7'' (Num 4)) (fst (test_engine ''O7'' (Num 10) (Num 0) OPEN))
      (snd (test_engine ''O7'' (Num 10) (Num 0) OPEN)) =
     ([(''applied'', JBool True)],
      \<lparr>processedEventIds = 0,
       order = \<lparr>id_ord = ''O7'', quantity = Num 10, filledQuantity = Num 4,
                status = PARTIALLY_FILLED\<rparr>,
       account = \<lparr>balance = Num 96\<rparr>\<rparr>,
      \<lparr>cells = (\<lambda>_. {})(0 := {''E7a''}), next_addr = 1\<rparr>) \<and>
   applied_of [(''applied'', JBool True)] \<and>
   (1::int) \<le> min 4 (10 - 0) \<and> js_lt (Num 0) (Num 4) \<and> PARTIALLY_FILLED \<noteq> OPEN"
proof -
  let ?eng = "fst (test_engine ''O7'' (Num 10) (Num 0) OPEN)"
  let ?evt = "execution ''E7a'' ''O7'' (Num 4)"
  have run: "applyExecution ?evt ?eng (snd (test_engine ''O7'' (Num 10) (Num 0) OPEN)) =
     ([(''applied'', JBool True)],
      \<lparr>processedEventIds = 0,
       order = \<lparr>id_ord = ''O7'', quantity = Num 10, filledQuantity = Num 4,
                status = PARTIALLY_FILLED\<rparr>,
       account = \<lparr>balance = Num 96\<rparr>\<rparr>,
      \<lparr>cells = (\<lambda>_. {})(0 := {''E7a''}), next_addr = 1\<rparr>)"
    by (simp add: applyExecution_def execution_def test_engine_simps Set_has_def Set_add_def js_eval)
  have pre: "quantity (order ?eng) = Num (of_int 10)" "filledQuantity (order ?eng) = Num (of_int 0)"
    "(0::int) < 10" "(0::int) \<le> 0" "(0::int) \<le> 10" "(10::int) \<le> 2 ^ 53"
    "spec_status 0 10 = Some (status (order ?eng))"
    "executedQuantity ?evt = Num (of_int 4)"
    by (simp_all add: test_engine_simps execution_def spec_status_def)
  have ok: "applied_of [(''applied'', JBool True)]"
    by (simp add: applied_of_simps)
  from success_fills_at_least_one [OF pre run ok] pre(7) run ok show ?thesis
    by (simp add: test_engine_simps)
qed

text \<open>
  The claim as stated puts no bound on the quantity and no condition on the event. At
  9007199254740992 of 9007199254740994 the event 1 is applied and the sum
  9007199254740993 is rounded back to 9007199254740992: the filled quantity does not grow.
  An event with executed quantity 1/2 is applied with an effective quantity below 1. An
  event whose executed quantity is \<open>NaN\<close> is applied and the new status is \<open>OPEN\<close>.
\<close>

theorem success_without_fill_counterexample:
  "round64 9007199254740994 = Num 9007199254740994 \<and>
   round64 9007199254740992 = Num 9007199254740992 \<and>
   spec_status 9007199254740992 9007199254740994 = Some PARTIALLY_FILLED \<and>
   applyExecution (execution ''E1'' ''O1'' (Num 1))
      (fst (test_engine ''O1'' (Num 9007199254740994) (Num 9007199254740992) PARTIALLY_FILLED))
      (snd (test_engine ''O1'' (Num 9007199254740994) (Num 9007199254740992) PARTIALLY_FILLED)) =
     ([(''applied'', JBool True)],
      \<lparr>processedEventIds = 0,
       order = \<lparr>id_ord = ''O1'', quantity = Num 9007199254740994,
                filledQuantity = Num 9007199254740992, status = PARTIALLY_FILLED\<rparr>,
       account = \<lparr>balance = Num 99\<rparr>\<rparr>,
      \<lparr>cells = (\<lambda>_. {})(0 := {''E1''}), next_addr = 1\<rparr>) \<and>
   \<not> js_lt (Num 9007199254740992) (Num 9007199254740992) \<and>
   round64 (1 / 2) = Num (1 / 2) \<and>
   applied_of (fst (applyExecution (execution ''E2'' ''O2'' (Num (1 / 2)))
      (fst (test_engine ''O2'' (Num 10) (Num 0) OPEN))
      (snd (test_engine ''O2'' (Num 10) (Num 0) OPEN)))) \<and>
   filledQuantity (order (fst (snd (applyExecution (execution ''E2'' ''O2'' (Num (1 / 2)))
      (fst (test_engine ''O2'' (Num 10) (Num 0) OPEN))
      (snd (test_engine ''O2'' (Num 10) (Num 0) OPEN)))))) = Num (1 / 2) \<and>
   applied_of (fst (applyExecution (execution ''E3'' ''O3'' NaN)
      (fst (test_engine ''O3'' (Num 10) (Num 0) OPEN))
      (snd (test_engine ''O3'' (Num 10) (Num 0) OPEN)))) \<and>
   status (order (fst (snd (applyExecution (execution ''E3'' ''O3'' NaN)
      (fst (test_engine ''O3'' (Num 10) (Num 0) OPEN))
      (snd (test_engine ''O3'' (Num 10) (Num 0) OPEN)))))) = OPEN"
  by (simp add: applyExecution_def execution_def test_engine_simps Set_has_def Set_add_def js_eval
      round64_examples round64_half applied_of_simps spec_status_def)

section \<open>Capping and the balance\<close>

text \<open>
  Claim C6 (capping transparency), as the code has it. For an order whose quantity and
  filled quantity are integers with \<open>0 \<le> filledQuantity \<le> quantity \<le> 2 ^ 53\<close>, and an
  event that passes the five rejection checks and whose executed quantity is an integer
  greater than the remaining quantity, \<open>applyExecution\<close> adds exactly the remaining
  quantity to the filled quantity, which becomes the quantity, and returns the object
  \<open>{ applied: true, reason: "capped_overfill" }\<close>, which has no property
  \<open>effectiveQuantity\<close>.
\<close>

theorem capped_overfill:
  assumes "quantity (order this) = Num (of_int q)"
      and "filledQuantity (order this) = Num (of_int f)"
      and "0 \<le> f" and "f \<le> q" and "q \<le> 2 ^ 53"
      and "executedQuantity evt = Num (of_int k)"
      and "etype evt = ''execution''"
      and "eventId evt \<notin> cells h (processedEventIds this)"
      and "orderId evt = id_ord (order this)"
      and "0 < k"
      and "status (order this) \<noteq> FILLED"
      and "q - f < k"
      and "applyExecution evt this h = (r, this', h')"
  shows "filledQuantity (order this') = Num (of_int (f + (q - f))) \<and>
         filledQuantity (order this') = quantity (order this) \<and>
         r = [(''applied'', JBool True), (''reason'', JStr ''capped_overfill'')] \<and>
         get_prop r ''effectiveQuantity'' = None"
proof -
  have acc: "accepts evt this h"
    using assms(6-11) by (simp add: accepts_def js_le_int_0)
  note a = accepted_int [OF assms(1-6) acc]
  have r: "r = [(''applied'', JBool True), (''reason'', JStr ''capped_overfill'')]"
    using a(3) assms(12,13) by simp
  have this': "this' = fst (snd (applyExecution evt this h))"
    using assms(13) by simp
  have eff: "min k (q - f) = q - f"
    using assms(12) by simp
  show ?thesis
    unfolding this' a(2) eff r using assms(1) by (simp add: get_prop_def)
qed

text \<open>
  Scenario 2 of the specification: \<open>E2\<close> with quantity 5 on an order filled 8 of 10.
\<close>

theorem capped_overfill_witness:
  "applyExecution (execution ''E2'' ''O2'' (Num 5))
      (fst (test_engine ''O2'' (Num 10) (Num 8) PARTIALLY_FILLED))
      (snd (test_engine ''O2'' (Num 10) (Num 8) PARTIALLY_FILLED)) =
     ([(''applied'', JBool True), (''reason'', JStr ''capped_overfill'')],
      \<lparr>processedEventIds = 0,
       order = \<lparr>id_ord = ''O2'', quantity = Num 10, filledQuantity = Num 10, status = FILLED\<rparr>,
       account = \<lparr>balance = Num 98\<rparr>\<rparr>,
      \<lparr>cells = (\<lambda>_. {})(0 := {''E2''}), next_addr = 1\<rparr>) \<and>
   (10::int) = 8 + (10 - 8) \<and> (10::int) - 8 < 5"
proof -
  let ?eng = "fst (test_engine ''O2'' (Num 10) (Num 8) PARTIALLY_FILLED)"
  let ?h = "snd (test_engine ''O2'' (Num 10) (Num 8) PARTIALLY_FILLED)"
  let ?evt = "execution ''E2'' ''O2'' (Num 5)"
  have run: "applyExecution ?evt ?eng ?h =
     ([(''applied'', JBool True), (''reason'', JStr ''capped_overfill'')],
      \<lparr>processedEventIds = 0,
       order = \<lparr>id_ord = ''O2'', quantity = Num 10, filledQuantity = Num 10, status = FILLED\<rparr>,
       account = \<lparr>balance = Num 98\<rparr>\<rparr>,
      \<lparr>cells = (\<lambda>_. {})(0 := {''E2''}), next_addr = 1\<rparr>)"
    by (simp add: applyExecution_def execution_def test_engine_simps Set_has_def Set_add_def js_eval)
  have pre: "quantity (order ?eng) = Num (of_int 10)" "filledQuantity (order ?eng) = Num (of_int 8)"
    "(0::int) \<le> 8" "(8::int) \<le> 10" "(10::int) \<le> 2 ^ 53"
    "executedQuantity ?evt = Num (of_int 5)"
    "etype ?evt = ''execution''"
    "eventId ?evt \<notin> cells ?h (processedEventIds ?eng)"
    "orderId ?evt = id_ord (order ?eng)"
    "(0::int) < 5"
    "status (order ?eng) \<noteq> FILLED"
    "(10::int) - 8 < 5"
    by (simp_all add: execution_def test_engine_simps)
  from capped_overfill [OF pre run] run show ?thesis by simp
qed

text \<open>
  The claim as stated promises that the result carries the effective quantity, and puts
  no bound on the quantity. In scenario 2 the effective quantity is 2, and reading
  \<open>effectiveQuantity\<close> from the result gives \<open>undefined\<close>. At 3 of 18014398509481982
  the event 18014398509481984 is capped and the filled quantity becomes
  18014398509481984: it grows by 18014398509481981, where 18014398509481979 remained.
\<close>

theorem capping_counterexample:
  "fst (applyExecution (execution ''E2'' ''O2'' (Num 5))
         (fst (test_engine ''O2'' (Num 10) (Num 8) PARTIALLY_FILLED))
         (snd (test_engine ''O2'' (Num 10) (Num 8) PARTIALLY_FILLED))) =
     [(''applied'', JBool True), (''reason'', JStr ''capped_overfill'')] \<and>
   get_prop (fst (applyExecution (execution ''E2'' ''O2'' (Num 5))
         (fst (test_engine ''O2'' (Num 10) (Num 8) PARTIALLY_FILLED))
         (snd (test_engine ''O2'' (Num 10) (Num 8) PARTIALLY_FILLED)))) ''effectiveQuantity'' = None \<and>
   get_prop (fst (applyExecution (execution ''E2'' ''O2'' (Num 5))
         (fst (test_engine ''O2'' (Num 10) (Num 8) PARTIALLY_FILLED))
         (snd (test_engine ''O2'' (Num 10) (Num 8) PARTIALLY_FILLED)))) ''effectiveQuantity''
     \<noteq> Some (JNum (Num 2)) \<and>
   round64 18014398509481982 = Num 18014398509481982 \<and>
   round64 18014398509481984 = Num 18014398509481984 \<and>
   applyExecution (execution ''E2'' ''O1'' (Num 18014398509481984))
      (fst (test_engine ''O1'' (Num 18014398509481982) (Num 3) PARTIALLY_FILLED))
      (snd (test_engine ''O1'' (Num 18014398509481982) (Num 3) PARTIALLY_FILLED)) =
     ([(''applied'', JBool True), (''reason'', JStr ''capped_overfill'')],
      \<lparr>processedEventIds = 0,
       order = \<lparr>id_ord = ''O1'', quantity = Num 18014398509481982,
                filledQuantity = Num 18014398509481984, status = PARTIALLY_FILLED\<rparr>,
       account = \<lparr>balance = Num (- 18014398509481880)\<rparr>\<rparr>,
      \<lparr>cells = (\<lambda>_. {})(0 := {''E2''}), next_addr = 1\<rparr>) \<and>
   (18014398509481984::int) - 3 \<noteq> 18014398509481982 - 3"
  by (simp add: applyExecution_def execution_def test_engine_simps Set_has_def Set_add_def js_eval
      round64_examples get_prop_def)

text \<open>
  Claim C7 (balance), as the code has it. For an order whose quantity and filled quantity
  are integers with \<open>0 \<le> filledQuantity \<le> quantity \<le> 2 ^ 53\<close>, an integer balance \<open>b\<close>
  with \<open>\<bar>b\<bar> + quantity \<le> 2 ^ 53\<close> and an event whose executed quantity is an integer,
  every call that returns \<open>applied: true\<close> decreases the balance by exactly the effective
  quantity \<open>min(executedQuantity, quantity - filledQuantity)\<close>, which is also the amount
  added to the filled quantity. The engine reads no side: the statement holds for every
  record that extends \<open>Order\<close>, so also for an order that carries \<open>side = SELL\<close>.
\<close>

theorem balance_decreases:
  assumes "quantity (order this) = Num (of_int q)"
      and "filledQuantity (order this) = Num (of_int f)"
      and "0 \<le> f" and "f \<le> q" and "q \<le> 2 ^ 53"
      and "executedQuantity evt = Num (of_int k)"
      and "balance (account this) = Num (of_int b)"
      and "\<bar>b\<bar> + q \<le> 2 ^ 53"
      and "applyExecution evt this h = (r, this', h')"
      and "applied_of r"
  shows "balance (account this') = Num (of_int (b - min k (q - f))) \<and>
         filledQuantity (order this') = Num (of_int (f + min k (q - f)))"
proof -
  have acc: "accepts evt this h"
    using applied_iff_accepts [of evt this h] assms(9,10) by simp
  note a = accepted_int [OF assms(1-6) acc]
  have this': "this' = fst (snd (applyExecution evt this h))"
    using assms(9) by simp
  have "\<bar>b - min k (q - f)\<bar> \<le> 2 ^ 53"
    using a(1) assms(3,4,8) by (simp add: min_def abs_if split: if_splits)
  then have "js_sub (Num (of_int b)) (Num (of_int (min k (q - f))))
      = Num (of_int (b - min k (q - f)))"
    by (rule js_sub_int)
  then show ?thesis
    unfolding this' a(2) using assms(7) by simp
qed

text \<open>
  An order with the values of the test "handles SELL orders correctly", given to the
  trading engine.
\<close>

theorem balance_decreases_witness:
  "applyExecution (execution ''E4'' ''O4'' (Num 3))
      (fst (new_TradingEngine
         \<lparr>id_ord = ''O4'', quantity = Num 10, filledQuantity = Num 0, status = OPEN, side = SELL\<rparr>
         \<lparr>balance = Num 100\<rparr> empty_store))
      (snd (new_TradingEngine
         \<lparr>id_ord = ''O4'', quantity = Num 10, filledQuantity = Num 0, status = OPEN, side = SELL\<rparr>
         \<lparr>balance = Num 100\<rparr> empty_store)) =
     ([(''applied'', JBool True)],
      \<lparr>processedEventIds = 0,
       order = \<lparr>id_ord = ''O4'', quantity = Num 10, filledQuantity = Num 3,
                status = PARTIALLY_FILLED, side = SELL\<rparr>,
       account = \<lparr>balance = Num 97\<rparr>\<rparr>,
      \<lparr>cells = (\<lambda>_. {})(0 := {''E4''}), next_addr = 1\<rparr>) \<and>
   applied_of [(''applied'', JBool True)] \<and>
   (97::int) = 100 - min 3 (10 - 0) \<and> \<bar>100::int\<bar> + 10 \<le> 2 ^ 53"
proof -
  let ?eng = "fst (new_TradingEngine
         \<lparr>id_ord = ''O4'', quantity = Num 10, filledQuantity = Num 0, status = OPEN, side = SELL\<rparr>
         \<lparr>balance = Num 100\<rparr> empty_store)"
  let ?h = "snd (new_TradingEngine
         \<lparr>id_ord = ''O4'', quantity = Num 10, filledQuantity = Num 0, status = OPEN, side = SELL\<rparr>
         \<lparr>balance = Num 100\<rparr> empty_store)"
  let ?evt = "execution ''E4'' ''O4'' (Num 3)"
  have run: "applyExecution ?evt ?eng ?h =
     ([(''applied'', JBool True)],
      \<lparr>processedEventIds = 0,
       order = \<lparr>id_ord = ''O4'', quantity = Num 10, filledQuantity = Num 3,
                status = PARTIALLY_FILLED, side = SELL\<rparr>,
       account = \<lparr>balance = Num 97\<rparr>\<rparr>,
      \<lparr>cells = (\<lambda>_. {})(0 := {''E4''}), next_addr = 1\<rparr>)"
    by (simp add: applyExecution_def execution_def new_TradingEngine_def new_Set_def
        empty_store_def Set_has_def Set_add_def js_eval)
  have pre: "quantity (order ?eng) = Num (of_int 10)" "filledQuantity (order ?eng) = Num (of_int 0)"
    "(0::int) \<le> 0" "(0::int) \<le> 10" "(10::int) \<le> 2 ^ 53"
    "executedQuantity ?evt = Num (of_int 3)"
    "balance (account ?eng) = Num (of_int 100)"
    "\<bar>100::int\<bar> + 10 \<le> 2 ^ 53"
    by (simp_all add: execution_def new_TradingEngine_def new_Set_def empty_store_def)
  have ok: "applied_of [(''applied'', JBool True)]"
    by (simp add: applied_of_simps)
  from balance_decreases [OF pre run ok] run ok show ?thesis by simp
qed

text \<open>
  The claim as stated promises that the balance of a SELL order grows by the effective
  quantity, and puts no bound on the balance. For this SELL order the call succeeds with
  effective quantity 3 and the balance goes from 100 to 97, not to 103. With the balance
  -9007199254740992 a successful call with effective quantity 1 leaves the balance as it
  was: the difference -9007199254740993 is rounded back to -9007199254740992.
\<close>

theorem balance_counterexample:
  "side (order (fst (new_TradingEngine
         \<lparr>id_ord = ''O4'', quantity = Num 10, filledQuantity = Num 0, status = OPEN, side = SELL\<rparr>
         \<lparr>balance = Num 100\<rparr> empty_store))) = SELL \<and>
   applied_of (fst (applyExecution (execution ''E4'' ''O4'' (Num 3))
      (fst (new_TradingEngine
         \<lparr>id_ord = ''O4'', quantity = Num 10, filledQuantity = Num 0, status = OPEN, side = SELL\<rparr>
         \<lparr>balance = Num 100\<rparr> empty_store))
      (snd (new_TradingEngine
         \<lparr>id_ord = ''O4'', quantity = Num 10, filledQuantity = Num 0, status = OPEN, side = SELL\<rparr>
         \<lparr>balance = Num 100\<rparr> empty_store)))) \<and>
   balance (account (fst (snd (applyExecution (execution ''E4'' ''O4'' (Num 3))
      (fst (new_TradingEngine
         \<lparr>id_ord = ''O4'', quantity = Num 10, filledQuantity = Num 0, status = OPEN, side = SELL\<rparr>
         \<lparr>balance = Num 100\<rparr> empty_store))
      (snd (new_TradingEngine
         \<lparr>id_ord = ''O4'', quantity = Num 10, filledQuantity = Num 0, status = OPEN, side = SELL\<rparr>
         \<lparr>balance = Num 100\<rparr> empty_store)))))) = Num 97 \<and>
   Num 97 \<noteq> Num (100 + 3) \<and>
   round64 (- 9007199254740992) = Num (- 9007199254740992) \<and>
   applyExecution (execution ''E1'' ''O1'' (Num 1))
      (fst (new_TradingEngine
         \<lparr>id_ord = ''O1'', quantity = Num 10, filledQuantity = Num 0, status = OPEN\<rparr>
         \<lparr>balance = Num (- 9007199254740992)\<rparr> empty_store))
      (snd (new_TradingEngine
         \<lparr>id_ord = ''O1'', quantity = Num 10, filledQuantity = Num 0, status = OPEN\<rparr>
         \<lparr>balance = Num (- 9007199254740992)\<rparr> empty_store)) =
     ([(''applied'', JBool True)],
      \<lparr>processedEventIds = 0,
       order = \<lparr>id_ord = ''O1'', quantity = Num 10, filledQuantity = Num 1,
                status = PARTIALLY_FILLED\<rparr>,
       account = \<lparr>balance = Num (- 9007199254740992)\<rparr>\<rparr>,
      \<lparr>cells = (\<lambda>_. {})(0 := {''E1''}), next_addr = 1\<rparr>)"
  by (simp add: applyExecution_def execution_def new_TradingEngine_def new_Set_def
      empty_store_def Set_has_def Set_add_def applied_of_simps js_eval round64_examples)

section \<open>Reading and clearing the processed event ids\<close>

text \<open>
  Claim C8 (defensive copy). On an engine whose set of processed event ids is allocated
  in the store, \<open>getProcessedEventIds\<close> returns the address of a set with the same
  contents as the engine's set, at an address different from the engine's, and leaves the
  engine's set as it was. Whatever the caller then writes into the returned set (\<open>add\<close>,
  \<open>delete\<close> and \<open>clear\<close> on it replace its contents by some set \<open>S\<close>), every later
  sequence of calls of \<open>applyExecution\<close> returns the same results, reaches the same engine
  state and the same set of processed event ids as it would have without the read.
\<close>

theorem getProcessedEventIds_copy:
  assumes "processedEventIds this < next_addr h"
      and "getProcessedEventIds this h = (a, h1)"
  shows "cells h1 a = cells h (processedEventIds this) \<and>
         a \<noteq> processedEventIds this \<and>
         cells h1 (processedEventIds this) = cells h (processedEventIds this) \<and>
         fst (applyAll evts this (h1\<lparr>cells := (cells h1)(a := S)\<rparr>)) = fst (applyAll evts this h) \<and>
         fst (snd (applyAll evts this (h1\<lparr>cells := (cells h1)(a := S)\<rparr>)))
           = fst (snd (applyAll evts this h)) \<and>
         cells (snd (snd (applyAll evts this (h1\<lparr>cells := (cells h1)(a := S)\<rparr>))))
             (processedEventIds this)
           = cells (snd (snd (applyAll evts this h))) (processedEventIds this)"
proof -
  have a: "a = next_addr h"
    and h1: "h1 = h\<lparr>cells := (cells h)(next_addr h := cells h (processedEventIds this)),
                     next_addr := next_addr h + 1\<rparr>"
    using assms(2) by (auto simp add: getProcessedEventIds_def new_Set_def)
  have fresh: "a \<noteq> processedEventIds this"
    using assms(1) a by simp
  have "cells (h1\<lparr>cells := (cells h1)(a := S)\<rparr>) (processedEventIds this)
      = cells h (processedEventIds this)"
    using fresh by (simp add: h1 a)
  from applyAll_store_local [OF this, of evts] fresh show ?thesis
    by (simp add: h1 a)
qed

text \<open>
  The test "returns a copy of processedEventIds, not reference": after \<open>E9a\<close> the caller
  adds \<open>E9b\<close> to the returned set; the engine still accepts \<open>E9b\<close>.
\<close>

theorem getProcessedEventIds_copy_witness:
  "processedEventIds \<lparr>processedEventIds = 0,
       order = \<lparr>id_ord = ''O9'', quantity = Num 10, filledQuantity = Num 3, status = PARTIALLY_FILLED\<rparr>,
       account = \<lparr>balance = Num 97\<rparr>\<rparr>
     < next_addr \<lparr>cells = (\<lambda>_. {})(0 := {''E9a''}), next_addr = 1\<rparr> \<and>
   getProcessedEventIds \<lparr>processedEventIds = 0,
       order = \<lparr>id_ord = ''O9'', quantity = Num 10, filledQuantity = Num 3, status = PARTIALLY_FILLED\<rparr>,
       account = \<lparr>balance = Num 97\<rparr>\<rparr>
      \<lparr>cells = (\<lambda>_. {})(0 := {''E9a''}), next_addr = 1\<rparr>
     = (1, \<lparr>cells = (\<lambda>_. {})(0 := {''E9a''}, 1 := {''E9a''}), next_addr = 2\<rparr>) \<and>
   fst (applyAll [execution ''E9b'' ''O9'' (Num 2)]
      \<lparr>processedEventIds = 0,
       order = \<lparr>id_ord = ''O9'', quantity = Num 10, filledQuantity = Num 3, status = PARTIALLY_FILLED\<rparr>,
       account = \<lparr>balance = Num 97\<rparr>\<rparr>
      (Set_add 1 ''E9b'' \<lparr>cells = (\<lambda>_. {})(0 := {''E9a''}, 1 := {''E9a''}), next_addr = 2\<rparr>))
     = [[(''applied'', JBool True)]]"
proof -
  let ?eng = "\<lparr>processedEventIds = 0,
       order = \<lparr>id_ord = ''O9'', quantity = Num 10, filledQuantity = Num 3, status = PARTIALLY_FILLED\<rparr>,
       account = \<lparr>balance = Num 97\<rparr>\<rparr>"
  let ?h = "\<lparr>cells = (\<lambda>_. {})(0 := {''E9a''}), next_addr = 1\<rparr>"
  let ?h1 = "\<lparr>cells = (\<lambda>_. {})(0 := {''E9a''}, 1 := {''E9a''}), next_addr = 2\<rparr>"
  have alloc: "processedEventIds ?eng < next_addr ?h"
    by simp
  have copy: "getProcessedEventIds ?eng ?h = (1, ?h1)"
    by (simp add: getProcessedEventIds_def new_Set_def)
  have mut: "Set_add 1 ''E9b'' ?h1 = ?h1\<lparr>cells := (cells ?h1)(1 := {''E9b'', ''E9a''})\<rparr>"
    by (simp add: Set_add_def)
  have plain: "fst (applyAll [execution ''E9b'' ''O9'' (Num 2)] ?eng ?h) = [[(''applied'', JBool True)]]"
    by (simp add: applyExecution_def execution_def Set_has_def Set_add_def js_eval)
  from getProcessedEventIds_copy [OF alloc copy, of "[execution ''E9b'' ''O9'' (Num 2)]" "{''E9b'', ''E9a''}"]
  have "fst (applyAll [execution ''E9b'' ''O9'' (Num 2)] ?eng (Set_add 1 ''E9b'' ?h1))
      = fst (applyAll [execution ''E9b'' ''O9'' (Num 2)] ?eng ?h)"
    unfolding mut by simp
  with alloc copy plain show ?thesis by simp
qed

text \<open>
  Claim C10 (clearing). \<open>clearProcessedEvents\<close> leaves the engine's set of processed
  event ids empty and changes nothing of the order (filled quantity, status) and of the
  account (balance); a call of \<open>applyExecution\<close> right after it, with any event, also one
  that was applied before, is not rejected with reason \<open>duplicate_event\<close>.
\<close>

theorem clearProcessedEvents_resets:
  assumes "clearProcessedEvents this h = (this', h')"
      and "applyExecution evt this' h' = (r, this'', h'')"
  shows "cells h' (processedEventIds this) = {} \<and>
         this' = this \<and>
         filledQuantity (order this') = filledQuantity (order this) \<and>
         status (order this') = status (order this) \<and>
         balance (account this') = balance (account this) \<and>
         r \<noteq> [(''applied'', JBool False), (''reason'', JStr ''duplicate_event'')] \<and>
         get_prop r ''reason'' \<noteq> Some (JStr ''duplicate_event'')"
proof -
  have same: "this' = this" and h': "h' = Set_clear (processedEventIds this) h"
    using assms(1) by (auto simp add: clearProcessedEvents_def)
  have empty: "cells h' (processedEventIds this) = {}"
    by (simp add: h' Set_clear_def)
  have "\<not> Set_has (processedEventIds this') (eventId evt) h'"
    using empty same by (simp add: Set_has_def)
  then have "get_prop (fst (applyExecution evt this' h')) ''reason'' \<noteq> Some (JStr ''duplicate_event'')"
    by (simp add: applyExecution_def get_prop_def Let_def)
  then have r: "get_prop r ''reason'' \<noteq> Some (JStr ''duplicate_event'')"
    using assms(2) by simp
  then have "r \<noteq> [(''applied'', JBool False), (''reason'', JStr ''duplicate_event'')]"
    by (auto simp add: get_prop_def)
  with r empty same show ?thesis by simp
qed

text \<open>
  The test "clears all processed event IDs": \<open>E10a\<close> and \<open>E10b\<close> were applied, the set
  is cleared, and \<open>E10a\<close> is applied again.
\<close>

theorem clearProcessedEvents_resets_witness:
  "clearProcessedEvents
      \<lparr>processedEventIds = 0,
       order = \<lparr>id_ord = ''O10'', quantity = Num 10, filledQuantity = Num 5, status = PARTIALLY_FILLED\<rparr>,
       account = \<lparr>balance = Num 95\<rparr>\<rparr>
      \<lparr>cells = (\<lambda>_. {})(0 := {''E10a'', ''E10b''}), next_addr = 1\<rparr> =
     (\<lparr>processedEventIds = 0,
       order = \<lparr>id_ord = ''O10'', quantity = Num 10, filledQuantity = Num 5, status = PARTIALLY_FILLED\<rparr>,
       account = \<lparr>balance = Num 95\<rparr>\<rparr>,
      \<lparr>cells = (\<lambda>_. {})(0 := {}), next_addr = 1\<rparr>) \<and>
   applyExecution (execution ''E10a'' ''O10'' (Num 1))
      \<lparr>processedEventIds = 0,
       order = \<lparr>id_ord = ''O10'', quantity = Num 10, filledQuantity = Num 5, status = PARTIALLY_FILLED\<rparr>,
       account = \<lparr>balance = Num 95\<rparr>\<rparr>
      \<lparr>cells = (\<lambda>_. {})(0 := {}), next_addr = 1\<rparr> =
     ([(''applied'', JBool True)],
      \<lparr>processedEventIds = 0,
       order = \<lparr>id_ord = ''O10'', quantity = Num 10, filledQuantity = Num 6, status = PARTIALLY_FILLED\<rparr>,
       account = \<lparr>balance = Num 94\<rparr>\<rparr>,
      \<lparr>cells = (\<lambda>_. {})(0 := {''E10a''}), next_addr = 1\<rparr>) \<and>
   get_prop [(''applied'', JBool True)] ''reason'' \<noteq> Some (JStr ''duplicate_event'')"
proof -
  let ?eng = "\<lparr>processedEventIds = 0,
       order = \<lparr>id_ord = ''O10'', quantity = Num 10, filledQuantity = Num 5, status = PARTIALLY_FILLED\<rparr>,
       account = \<lparr>balance = Num 95\<rparr>\<rparr>"
  have clear: "clearProcessedEvents ?eng
      \<lparr>cells = (\<lambda>_. {})(0 := {''E10a'', ''E10b''}), next_addr = 1\<rparr> =
     (?eng, \<lparr>cells = (\<lambda>_. {})(0 := {}), next_addr = 1\<rparr>)"
    by (simp add: clearProcessedEvents_def Set_clear_def)
  have again: "applyExecution (execution ''E10a'' ''O10'' (Num 1)) ?eng
      \<lparr>cells = (\<lambda>_. {})(0 := {}), next_addr = 1\<rparr> =
     ([(''applied'', JBool True)],
      \<lparr>processedEventIds = 0,
       order = \<lparr>id_ord = ''O10'', quantity = Num 10, filledQuantity = Num 6, status = PARTIALLY_FILLED\<rparr>,
       account = \<lparr>balance = Num 94\<rparr>\<rparr>,
      \<lparr>cells = (\<lambda>_. {})(0 := {''E10a''}), next_addr = 1\<rparr>)"
    by (simp add: applyExecution_def execution_def Set_has_def Set_add_def js_eval)
  from clearProcessedEvents_resets [OF clear again] clear again show ?thesis by simp
qed

end
